theory Spec2Isabelle
  imports Complex_Main
begin

section \<open>Data model\<close>

text \<open>
  The notebook reads one CSV file into a table and runs six cells over it. A table is a
  list of rows in file order. Every cell of a CSV file may be empty, and the loader
  turns an empty cell into a null; a column is therefore an \<open>option\<close>, with
  \<open>None\<close> for null. Only the columns that the cohort, funnel and experiment
  cells read are kept.
\<close>

record customer =
  customerID :: "string option"
  tenure :: "int option"
  InternetService :: "string option"
  StreamingTV :: "string option"
  StreamingMovies :: "string option"
  Contract :: "string option"
  Churn :: "string option"

text \<open>
  The first statement of the cohort cell appends the column \<open>Churn_flag\<close> to the table;
  the funnel and experiment cells read the table with that column.
\<close>

record row = customer +
  Churn_flag :: "int option"

text \<open>
  The cohort cell goes on to append \<open>signup_date\<close> and \<open>signup_month\<close>. A time is a
  number of nanoseconds since the epoch, a duration a number of nanoseconds, and a
  monthly period its ordinal (the number of months since the epoch month).
\<close>

record dated = row +
  signup_date :: "int option"
  signup_month :: "int option"

text \<open>The exceptions that the modelled cells can raise.\<close>

datatype error = NameError | ValueError

text \<open>The experiment cell appends the column \<open>group\<close> to its copy of the table.\<close>

datatype grp = A | B

record assigned = row +
  group :: grp

text \<open>
  A value of a floating-point column. A finite value is kept as the exact quotient; the
  properties below only compare a quotient of two counts with 0 and 1, and the rounded
  quotient of \<open>k\<close> by \<open>n\<close> with \<open>0 \<le> k \<le> n\<close> and \<open>0 < n\<close> lies between 0 and 1, is 0
  exactly for \<open>k = 0\<close> and is 1 exactly for \<open>k = n\<close>.
\<close>

datatype float64 = Fin rat | NaN | PosInf | NegInf

text \<open>
  Elementwise division of a numeric column by a numeric column or a number. It never
  raises: a zero divisor gives \<open>NaN\<close> for a zero dividend and a signed infinity otherwise.
\<close>

definition truediv :: "int \<Rightarrow> int \<Rightarrow> float64" where
  "truediv n d =
     (if d \<noteq> 0 then Fin (of_int n / of_int d)
      else if n = 0 then NaN
      else if 0 < n then PosInf else NegInf)"

definition times100 :: "float64 \<Rightarrow> float64" where
  "times100 x = (case x of Fin q \<Rightarrow> Fin (q * 100) | NaN \<Rightarrow> NaN | PosInf \<Rightarrow> PosInf | NegInf \<Rightarrow> NegInf)"

text \<open>\<open>0 \<le> x \<and> x \<le> 1\<close> on floating-point values: every comparison with \<open>NaN\<close> is false.\<close>

definition in_unit_interval :: "float64 \<Rightarrow> bool" where
  "in_unit_interval x = (case x of Fin q \<Rightarrow> 0 \<le> q \<and> q \<le> 1 | _ \<Rightarrow> False)"

text \<open>\<open>x < y\<close> on floating-point values.\<close>

fun float_less :: "float64 \<Rightarrow> float64 \<Rightarrow> bool" where
  "float_less (Fin p) (Fin q) = (p < q)"
| "float_less (Fin p) PosInf = True"
| "float_less NegInf (Fin q) = True"
| "float_less NegInf PosInf = True"
| "float_less _ _ = False"

text \<open>\<open>count\<close> of a column: the number of its non-null cells.\<close>

definition count :: "('r \<Rightarrow> 'v option) \<Rightarrow> 'r list \<Rightarrow> nat" where
  "count col t = length (filter (\<lambda>r. col r \<noteq> None) t)"

text \<open>\<open>sum\<close> of a numeric column: nulls are skipped, and the sum of no cell is 0.\<close>

definition sum_col :: "('r \<Rightarrow> int option) \<Rightarrow> 'r list \<Rightarrow> int" where
  "sum_col col t = sum_list (map (\<lambda>r. case col r of None \<Rightarrow> 0 | Some v \<Rightarrow> v) t)"

section \<open>Descriptive cell\<close>

text \<open>
  \<open>churn_counts = df['Churn'].value_counts()\<close>: one entry for each distinct non-null
  label with the number of rows carrying it, in descending order of the count (labels
  with equal counts are kept in the order of their first occurrence). The percentage is
  \<open>churn_counts / df.shape[0] * 100\<close>.
\<close>

definition churn_counts :: "customer list \<Rightarrow> (string \<times> nat) list" where
  "churn_counts df =
     sort_key (\<lambda>e. - int (snd e))
       (map (\<lambda>l. (l, length (filter (\<lambda>r. Churn r = Some l) df)))
            (remdups (List.map_filter Churn df)))"

definition churn_percentage :: "customer list \<Rightarrow> (string \<times> float64) list" where
  "churn_percentage df =
     map (\<lambda>(l, c). (l, times100 (truediv (int c) (int (length df))))) (churn_counts df)"

section \<open>Cohort cell\<close>

text \<open>
  \<open>df['Churn_flag'] = df['Churn'].map({'Yes': 1, 'No': 0})\<close>: a label that is not a key
  of the dictionary, and a null label, map to null.
\<close>

definition churn_dict :: "string \<rightharpoonup> int" where
  "churn_dict = [''Yes'' \<mapsto> 1, ''No'' \<mapsto> 0]"

definition flag_of :: "string option \<Rightarrow> int option" where
  "flag_of c = Option.bind c churn_dict"

definition add_flag :: "customer \<Rightarrow> row" where
  "add_flag c =
     \<lparr>customerID = customerID c, tenure = tenure c, InternetService = InternetService c,
      StreamingTV = StreamingTV c, StreamingMovies = StreamingMovies c,
      Contract = Contract c, Churn = Churn c,
      Churn_flag = flag_of (Churn c)\<rparr>"

definition set_churn_flag :: "customer list \<Rightarrow> row list" where
  "set_churn_flag df = map add_flag df"

text \<open>
  \<open>pd.to_timedelta(values, unit=u)\<close>. The library converts with a unit of fixed length
  (listed here by their short names, without their aliases) and raises \<open>ValueError\<close>
  for a unit it does not accept, whatever the values: the calendar units \<open>M\<close>, \<open>Y\<close>
  and \<open>y\<close> are not units of fixed length and are not accepted. A null value converts
  to a null duration.
\<close>

definition unit_nanoseconds :: "string \<rightharpoonup> int" where
  "unit_nanoseconds =
     [''W'' \<mapsto> 604800000000000, ''D'' \<mapsto> 86400000000000, ''h'' \<mapsto> 3600000000000,
      ''m'' \<mapsto> 60000000000, ''s'' \<mapsto> 1000000000, ''ms'' \<mapsto> 1000000, ''us'' \<mapsto> 1000,
      ''ns'' \<mapsto> 1]"

definition to_timedelta :: "int option list \<Rightarrow> string \<Rightarrow> error + int option list" where
  "to_timedelta values u =
     (case unit_nanoseconds u of
        None \<Rightarrow> Inl ValueError
      | Some k \<Rightarrow> Inr (map (map_option (\<lambda>v. v * k)) values))"

text \<open>\<open>reference_date = pd.to_datetime('2020-02-01')\<close>.\<close>

definition reference_date :: int where
  "reference_date = 1580515200000000000"

text \<open>\<open>.dt.to_period('M')\<close>: the calendar month of a time, as its ordinal.\<close>

definition to_period_M :: "int \<Rightarrow> int" where
  "to_period_M t =
     (let z = t div 86400000000000 + 719468;
          era = z div 146097;
          doe = z mod 146097;
          yoe = (doe - doe div 1460 + doe div 36524 - doe div 146096) div 365;
          doy = doe - (365 * yoe + yoe div 4 - yoe div 100);
          mp = (5 * doy + 2) div 153;
          m = (if mp < 10 then mp + 3 else mp - 9);
          y = yoe + era * 400 + (if m \<le> 2 then 1 else 0)
      in (y - 1970) * 12 + (m - 1))"

text \<open>
  \<open>df['signup_date'] = reference_date - <durations>\<close> and
  \<open>df['signup_month'] = df['signup_date'].dt.to_period('M')\<close>, for one row and its
  duration. A null duration gives a null date and a null month.
\<close>

definition add_dates :: "row \<Rightarrow> int option \<Rightarrow> dated" where
  "add_dates r d =
     \<lparr>customerID = customerID r, tenure = tenure r, InternetService = InternetService r,
      StreamingTV = StreamingTV r, StreamingMovies = StreamingMovies r,
      Contract = Contract r, Churn = Churn r, Churn_flag = Churn_flag r,
      signup_date = map_option (\<lambda>x. reference_date - x) d,
      signup_month = map_option (\<lambda>x. to_period_M (reference_date - x)) d\<rparr>"

text \<open>
  \<open>df.groupby('signup_month')\<close>: one group for each distinct non-null key, in ascending
  key order; rows with a null key belong to no group.
\<close>

definition cohort_keys :: "dated list \<Rightarrow> int list" where
  "cohort_keys df = sort (remdups (List.map_filter signup_month df))"

definition cohort_rows :: "dated list \<Rightarrow> int \<Rightarrow> dated list" where
  "cohort_rows df m = filter (\<lambda>r. signup_month r = Some m) df"

record cohort =
  cohort_month :: int
  total_customers :: nat
  retained :: nat
  retention_rate :: float64

text \<open>
  \<open>total_customers=('customerID', 'count')\<close>, \<open>retained=('Churn_flag', lambda x: (x == 0).sum())\<close>
  and \<open>retention_rate = retained / total_customers\<close>.
\<close>

definition cohort_agg :: "int \<Rightarrow> dated list \<Rightarrow> cohort" where
  "cohort_agg m g =
     (let total = count customerID g;
          kept = length (filter (\<lambda>r. Churn_flag r = Some 0) g)
      in \<lparr>cohort_month = m, total_customers = total, retained = kept,
          retention_rate = truediv (int kept) (int total)\<rparr>)"

definition cohort_data :: "dated list \<Rightarrow> cohort list" where
  "cohort_data df = map (\<lambda>m. cohort_agg m (cohort_rows df m)) (cohort_keys df)"

text \<open>
  The cohort cell, statement by statement. It writes \<open>Churn_flag\<close> into the table,
  then converts the tenures with \<open>unit='M'\<close>. When the conversion raises, the cell stops
  there: the result is the exception together with the table as the cell leaves it, with
  \<open>Churn_flag\<close> and without the two date columns. Otherwise the cell appends the date
  columns and computes the cohort table.
\<close>

definition cohort_cell :: "customer list \<Rightarrow> (error \<times> row list) + (dated list \<times> cohort list)" where
  "cohort_cell df =
     (let df1 = set_churn_flag df
      in case to_timedelta (map tenure df1) ''M'' of
           Inl e \<Rightarrow> Inl (e, df1)
         | Inr durations \<Rightarrow>
             (let df2 = map2 add_dates df1 durations
              in Inr (df2, cohort_data df2)))"

section \<open>Funnel cell\<close>

text \<open>
  Each count is \<open>shape[0]\<close> of a selection from \<open>df\<close> itself. A comparison with a null
  cell is false for \<open>==\<close> and true for \<open>!=\<close>.
\<close>

definition total_signed :: "row list \<Rightarrow> nat" where
  "total_signed df = length df"

definition has_internet :: "row list \<Rightarrow> nat" where
  "has_internet df = length (filter (\<lambda>r. InternetService r \<noteq> Some ''No'') df)"

definition streaming :: "row list \<Rightarrow> nat" where
  "streaming df =
     length (filter (\<lambda>r. StreamingTV r = Some ''Yes'' \<or> StreamingMovies r = Some ''Yes'') df)"

definition still_active :: "row list \<Rightarrow> nat" where
  "still_active df = length (filter (\<lambda>r. Churn_flag r = Some 0) df)"

record funnel_step =
  Step :: string
  Count :: nat
  Conversion :: float64

text \<open>\<open>funnel['Conversion'] = funnel['Count'] / total_signed\<close>.\<close>

definition funnel_row :: "row list \<Rightarrow> string \<Rightarrow> nat \<Rightarrow> funnel_step" where
  "funnel_row df s c =
     \<lparr>Step = s, Count = c, Conversion = truediv (int c) (int (total_signed df))\<rparr>"

definition funnel :: "row list \<Rightarrow> funnel_step list" where
  "funnel df =
     [funnel_row df ''Signed Up'' (total_signed df),
      funnel_row df ''Has Internet'' (has_internet df),
      funnel_row df ''Uses Streaming'' (streaming df),
      funnel_row df ''Still Active'' (still_active df)]"

section \<open>Experiment cells\<close>

text \<open>
  A table is an object, and a variable of the notebook holds a reference to it:
  \<open>copy()\<close> allocates a new table, and an assignment through \<open>.loc\<close> writes into the
  table that the variable refers to. The notebook's variables of the two experiment
  cells are unbound until their cell has run.
\<close>

type_synonym ref = nat

record agg =
  agg_group :: grp
  total :: nat
  churned :: int
  rate :: float64

record notebook =
  heap :: "ref \<rightharpoonup> assigned list"
  next_ref :: ref
  mtm :: "ref option"
  grouped :: "agg list option"
  mtm_effect :: "ref option"
  grouped_effect :: "agg list option"

definition alloc :: "assigned list \<Rightarrow> notebook \<Rightarrow> ref \<times> notebook" where
  "alloc t s = (next_ref s, s\<lparr>heap := (heap s)(next_ref s \<mapsto> t), next_ref := Suc (next_ref s)\<rparr>)"

text \<open>
  \<open>np.random.choice(['A', 'B'], size=n, replace=True)\<close>: \<open>n\<close> draws. The generator is not
  seeded; a realisation of the draws is a function from the position to the label.
\<close>

definition choice :: "(nat \<Rightarrow> grp) \<Rightarrow> nat \<Rightarrow> grp list" where
  "choice draw n = map draw [0..<n]"

definition set_group :: "row \<Rightarrow> grp \<Rightarrow> assigned" where
  "set_group r g =
     \<lparr>customerID = customerID r, tenure = tenure r, InternetService = InternetService r,
      StreamingTV = StreamingTV r, StreamingMovies = StreamingMovies r,
      Contract = Contract r, Churn = Churn r,
      Churn_flag = Churn_flag r, group = g\<rparr>"

text \<open>
  \<open>groupby('group')['Churn_flag'].agg(total='count', churned='sum')\<close> followed by
  \<open>rate = churned / total\<close>: one line for each label that occurs, in ascending order.
\<close>

definition agg_row :: "assigned list \<Rightarrow> grp \<Rightarrow> agg" where
  "agg_row t g =
     (let rows = filter (\<lambda>r. group r = g) t;
          n = count Churn_flag rows;
          c = sum_col Churn_flag rows
      in \<lparr>agg_group = g, total = n, churned = c, rate = truediv c (int n)\<rparr>)"

definition churn_by_group :: "assigned list \<Rightarrow> agg list" where
  "churn_by_group t = map (agg_row t) (filter (\<lambda>g. \<exists>r \<in> set t. group r = g) [A, B])"

text \<open>\<open>mtm['group'] = np.random.choice(['A', 'B'], size=mtm.shape[0], replace=True)\<close>.\<close>

definition assign_groups :: "(nat \<Rightarrow> grp) \<Rightarrow> row list \<Rightarrow> assigned list" where
  "assign_groups draw sel = map2 set_group sel (choice draw (length sel))"

text \<open>
  The first experiment cell: \<open>mtm = df[df['Contract'] == 'Month-to-month'].copy()\<close>, the
  column \<open>group\<close> written into that new table, and the baseline aggregation.
\<close>

definition month_to_month :: "row list \<Rightarrow> row list" where
  "month_to_month df = filter (\<lambda>r. Contract r = Some ''Month-to-month'') df"

definition cell_assign :: "(nat \<Rightarrow> grp) \<Rightarrow> row list \<Rightarrow> notebook \<Rightarrow> notebook" where
  "cell_assign draw df s =
     (let t = assign_groups draw (month_to_month df);
          (p, s1) = alloc t s
      in s1\<lparr>mtm := Some p, grouped := Some (churn_by_group t)\<rparr>)"

text \<open>\<open>mtm_effect.loc[mtm_effect['group'] == 'B', 'Churn_flag'] = 0\<close>, on one table.\<close>

definition zero_churn_in_B :: "assigned list \<Rightarrow> assigned list" where
  "zero_churn_in_B t = map (\<lambda>r. if group r = B then r\<lparr>Churn_flag := Some 0\<rparr> else r) t"

text \<open>
  The second experiment cell: \<open>mtm_effect = mtm.copy()\<close>, the write through
  \<open>mtm_effect\<close>, and the aggregation of the table \<open>mtm_effect\<close> refers to.
\<close>

text \<open>
  A bound variable refers to an allocated table; the branch for a reference without a
  table is there to keep the definition total.
\<close>

definition cell_effect :: "notebook \<Rightarrow> error + notebook" where
  "cell_effect s =
     (case mtm s of
        None \<Rightarrow> Inl NameError
      | Some p \<Rightarrow>
          (case heap s p of
             None \<Rightarrow> Inl NameError
           | Some t \<Rightarrow>
               (let (q, s1) = alloc t s;
                    s2 = s1\<lparr>mtm_effect := Some q\<rparr>;
                    s3 = s2\<lparr>heap := (heap s2)(q := map_option zero_churn_in_B (heap s2 q))\<rparr>
                in Inr (s3\<lparr>grouped_effect := map_option churn_by_group (heap s3 q)\<rparr>))))"

section \<open>Concrete inputs\<close>

definition record_of :: "string option \<Rightarrow> string \<Rightarrow> string \<Rightarrow> customer" where
  "record_of cid contract label =
     \<lparr>customerID = cid, tenure = Some 1, InternetService = Some ''DSL'',
      StreamingTV = Some ''Yes'', StreamingMovies = Some ''No'',
      Contract = Some contract, Churn = Some label\<rparr>"

text \<open>One month-to-month customer with the label \<open>Maybe\<close>.\<close>

definition table_one_odd :: "customer list" where
  "table_one_odd = [record_of (Some ''0001'') ''Month-to-month'' ''Maybe'']"

text \<open>Three month-to-month customers, one of them with the label \<open>Maybe\<close>.\<close>

definition table_odd_label :: "customer list" where
  "table_odd_label =
     [record_of (Some ''0001'') ''Month-to-month'' ''Yes'',
      record_of (Some ''0002'') ''Month-to-month'' ''Maybe'',
      record_of (Some ''0003'') ''Month-to-month'' ''No'']"

text \<open>Four customers with clean labels, three of them month-to-month.\<close>

definition table_clean :: "customer list" where
  "table_clean =
     [record_of (Some ''0001'') ''Month-to-month'' ''Yes'',
      record_of (Some ''0002'') ''Month-to-month'' ''Yes'',
      record_of (Some ''0003'') ''Two year'' ''No'',
      record_of (Some ''0004'') ''Month-to-month'' ''No'']"

text \<open>Two realisations of the draw: alternating labels, and label \<open>A\<close> throughout.\<close>

definition alternating :: "nat \<Rightarrow> grp" where
  "alternating i = (if even i then A else B)"

definition always_A :: "nat \<Rightarrow> grp" where
  "always_A i = A"

definition new_notebook :: notebook where
  "new_notebook =
     \<lparr>heap = Map.empty, next_ref = 0, mtm = None, grouped = None,
      mtm_effect = None, grouped_effect = None\<rparr>"

section \<open>Division\<close>

lemma truediv_unit:
  assumes "k \<le> n" and "0 < n"
  shows "in_unit_interval (truediv (int k) (int n))"
  using assms by (simp add: truediv_def in_unit_interval_def divide_le_eq_1)

lemma truediv_self: "0 < n \<Longrightarrow> truediv (int n) (int n) = Fin 1"
  by (simp add: truediv_def)

lemma truediv_zero_divisor: "truediv (int k) 0 = (if k = 0 then NaN else PosInf)"
  by (simp add: truediv_def)

section \<open>Properties of the funnel cell\<close>

lemma funnel_counts_le:
  "has_internet df \<le> total_signed df" "streaming df \<le> total_signed df"
  "still_active df \<le> total_signed df"
  by (simp_all add: has_internet_def streaming_def still_active_def total_signed_def)

lemma set_funnel:
  "set (funnel df) =
     {funnel_row df ''Signed Up'' (total_signed df), funnel_row df ''Has Internet'' (has_internet df),
      funnel_row df ''Uses Streaming'' (streaming df), funnel_row df ''Still Active'' (still_active df)}"
  by (simp add: funnel_def)

lemma funnel_step_shape:
  assumes "s \<in> set (funnel df)"
  shows "Count s \<le> total_signed df
         \<and> Conversion s = truediv (int (Count s)) (int (total_signed df))"
  using assms funnel_counts_le [of df] by (auto simp: set_funnel funnel_row_def)

text \<open>
  Claim C10. On a table with at least one row, the first step of the funnel is
  \<open>Signed Up\<close>, its \<open>Count\<close> is the number of rows of the table, and its
  \<open>Conversion\<close> is exactly 1.
\<close>

theorem funnel_first_step:
  assumes "df \<noteq> []"
  shows "Step (hd (funnel df)) = ''Signed Up'' \<and> Count (hd (funnel df)) = length df
         \<and> Conversion (hd (funnel df)) = Fin 1"
  using assms by (simp add: funnel_def funnel_row_def total_signed_def truediv_self)

theorem funnel_first_step_witness:
  "set_churn_flag table_clean \<noteq> []
   \<and> Count (hd (funnel (set_churn_flag table_clean))) = 4
   \<and> Conversion (hd (funnel (set_churn_flag table_clean))) = Fin 1"
proof -
  have ne: "set_churn_flag table_clean \<noteq> []"
    by (simp add: set_churn_flag_def table_clean_def)
  have len: "length (set_churn_flag table_clean) = 4"
    by (simp add: set_churn_flag_def table_clean_def)
  from funnel_first_step [OF ne] len ne show ?thesis by simp
qed

text \<open>
  Claim C3, as stated, at the table without rows: the divisor \<open>total_signed\<close> is 0, the
  four counts are 0, and each \<open>Conversion\<close> is \<open>NaN\<close>, which is not between 0 and 1.
\<close>

theorem funnel_empty_table:
  "map Conversion (funnel (set_churn_flag [])) = [NaN, NaN, NaN, NaN]
   \<and> \<not> in_unit_interval (Conversion (hd (funnel (set_churn_flag []))))"
  by (simp add: set_churn_flag_def funnel_def funnel_row_def total_signed_def has_internet_def
      streaming_def still_active_def truediv_def in_unit_interval_def)

text \<open>
  Claim C3, amended. For every table, each of the four steps has
  \<open>Count \<le> total_signed\<close>. On a table with at least one row each \<open>Conversion\<close> lies
  between 0 and 1; on the table without rows each \<open>Conversion\<close> is \<open>NaN\<close>.
\<close>

theorem funnel_bounds:
  "(\<forall>s \<in> set (funnel df). Count s \<le> total_signed df)
   \<and> (df \<noteq> [] \<longrightarrow> (\<forall>s \<in> set (funnel df). in_unit_interval (Conversion s)))
   \<and> (df = [] \<longrightarrow> (\<forall>s \<in> set (funnel df). Conversion s = NaN))"
proof (intro conjI impI ballI)
  fix s assume "s \<in> set (funnel df)"
  then show "Count s \<le> total_signed df" by (simp add: funnel_step_shape)
next
  fix s assume ne: "df \<noteq> []" and s: "s \<in> set (funnel df)"
  from ne have pos: "0 < total_signed df" by (simp add: total_signed_def)
  from funnel_step_shape [OF s] pos show "in_unit_interval (Conversion s)"
    by (simp add: truediv_unit)
next
  fix s assume e: "df = []" and s: "s \<in> set (funnel df)"
  from e have z: "total_signed df = 0" by (simp add: total_signed_def)
  from funnel_step_shape [OF s] z show "Conversion s = NaN"
    by (simp add: truediv_def)
qed

theorem funnel_bounds_witness:
  "set_churn_flag table_clean \<noteq> []
   \<and> list_all (\<lambda>s. Count s \<le> 4 \<and> in_unit_interval (Conversion s))
        (funnel (set_churn_flag table_clean))
   \<and> list_all (\<lambda>s. Conversion s = NaN) (funnel [])"
proof -
  have ne: "set_churn_flag table_clean \<noteq> []"
    by (simp add: set_churn_flag_def table_clean_def)
  have len: "total_signed (set_churn_flag table_clean) = 4"
    by (simp add: total_signed_def set_churn_flag_def table_clean_def)
  from funnel_bounds [of "set_churn_flag table_clean"] funnel_bounds [of "[]"] ne len
  show ?thesis by (simp add: list_all_iff)
qed

text \<open>
  Claim C4. The four counts of the funnel are, in order, the number of rows of the whole
  table, the number of rows of the whole table with \<open>InternetService != 'No'\<close>, the
  number of rows of the whole table with \<open>StreamingTV == 'Yes'\<close> or
  \<open>StreamingMovies == 'Yes'\<close>, and the number of rows of the whole table with
  \<open>Churn_flag == 0\<close>: no step is restricted to the rows that passed the step before.
\<close>

theorem funnel_independent_counts:
  "map Count (funnel df) =
     [card {i. i < length df},
      card {i. i < length df \<and> InternetService (df ! i) \<noteq> Some ''No''},
      card {i. i < length df \<and> (StreamingTV (df ! i) = Some ''Yes'' \<or> StreamingMovies (df ! i) = Some ''Yes'')},
      card {i. i < length df \<and> Churn_flag (df ! i) = Some 0}]"
  by (simp add: funnel_def funnel_row_def total_signed_def has_internet_def streaming_def
      still_active_def length_filter_conv_card)

theorem funnel_independent_counts_witness:
  "card {i. i < length (set_churn_flag table_clean)
           \<and> Churn_flag (set_churn_flag table_clean ! i) = Some 0} = 2"
proof -
  have e: "map Count (funnel (set_churn_flag table_clean)) = [4, 4, 4, 2]"
    by code_simp
  from funnel_independent_counts [of "set_churn_flag table_clean", unfolded e]
  have "2 = card {i. i < length (set_churn_flag table_clean)
           \<and> Churn_flag (set_churn_flag table_clean ! i) = Some 0}"
    by (simp only: list.inject)
  then show ?thesis by (rule sym)
qed

section \<open>Properties of the experiment cells\<close>

lemma cell_assign_eq:
  "cell_assign draw df s =
     s\<lparr>heap := (heap s)(next_ref s \<mapsto> assign_groups draw (month_to_month df)),
       next_ref := Suc (next_ref s),
       mtm := Some (next_ref s),
       grouped := Some (churn_by_group (assign_groups draw (month_to_month df)))\<rparr>"
  by (simp add: cell_assign_def alloc_def Let_def)

lemma cell_effect_eq:
  assumes "mtm s = Some p" and "heap s p = Some t"
  shows "cell_effect s =
     Inr (s\<lparr>heap := (heap s)(next_ref s \<mapsto> zero_churn_in_B t),
             next_ref := Suc (next_ref s),
             mtm_effect := Some (next_ref s),
             grouped_effect := Some (churn_by_group (zero_churn_in_B t))\<rparr>)"
  using assms by (simp add: cell_effect_def alloc_def Let_def)

lemma group_zero_churn [simp]: "map group (zero_churn_in_B t) = map group t"
  by (simp add: zero_churn_in_B_def)

lemma occurs_zero_churn [simp]:
  "(\<exists>r \<in> set (zero_churn_in_B t). group r = g) = (\<exists>r \<in> set t. group r = g)"
proof -
  have "(\<exists>r \<in> set u. group r = g) = (g \<in> set (map group u))" for u :: "assigned list"
    by auto
  then show ?thesis by (simp del: set_map)
qed

lemma filter_A_zero_churn:
  "filter (\<lambda>r. group r = A) (zero_churn_in_B t) = filter (\<lambda>r. group r = A) t"
  by (induction t) (simp_all add: zero_churn_in_B_def)

lemma count_B_zero_churn:
  "count Churn_flag (filter (\<lambda>r. group r = B) (zero_churn_in_B t))
     = length (filter (\<lambda>r. group r = B) t)"
  by (induction t) (simp_all add: zero_churn_in_B_def count_def)

lemma sum_B_zero_churn:
  "sum_col Churn_flag (filter (\<lambda>r. group r = B) (zero_churn_in_B t)) = 0"
  by (induction t) (simp_all add: zero_churn_in_B_def sum_col_def)

lemma agg_row_A_zero_churn: "agg_row (zero_churn_in_B t) A = agg_row t A"
  by (simp add: agg_row_def filter_A_zero_churn)

lemma agg_row_B_zero_churn:
  assumes "\<exists>r \<in> set t. group r = B"
  shows "agg_row (zero_churn_in_B t) B =
           \<lparr>agg_group = B, total = length (filter (\<lambda>r. group r = B) t), churned = 0, rate = Fin 0\<rparr>"
proof -
  from assms have "filter (\<lambda>r. group r = B) t \<noteq> []" by (simp add: filter_empty_conv)
  then have "0 < length (filter (\<lambda>r. group r = B) t)" by simp
  then show ?thesis
    by (simp add: agg_row_def count_B_zero_churn sum_B_zero_churn truediv_def Let_def)
qed

lemma agg_group_agg_row [simp]: "agg_group (agg_row t g) = g"
  by (simp add: agg_row_def Let_def)

lemma B_line_iff: "(\<exists>a \<in> set (churn_by_group t). agg_group a = B) = (\<exists>r \<in> set t. group r = B)"
  by (auto simp: churn_by_group_def)

lemma B_line_after_effect:
  assumes "a \<in> set (churn_by_group (zero_churn_in_B t))" and "agg_group a = B"
  shows "churned a = 0 \<and> rate a = Fin 0 \<and> total a = length (filter (\<lambda>r. group r = B) t)"
proof -
  from assms have occ: "\<exists>r \<in> set t. group r = B" and a: "a = agg_row (zero_churn_in_B t) B"
    by (auto simp: churn_by_group_def split: if_splits)
  show ?thesis unfolding a agg_row_B_zero_churn [OF occ] by simp
qed

lemma A_lines_after_effect:
  "filter (\<lambda>a. agg_group a = A) (churn_by_group (zero_churn_in_B t))
     = filter (\<lambda>a. agg_group a = A) (churn_by_group t)"
  by (simp add: churn_by_group_def agg_row_A_zero_churn)

lemma length_assign_groups [simp]: "length (assign_groups draw sel) = length sel"
  by (simp add: assign_groups_def choice_def)

lemma nth_assign_groups:
  "i < length sel \<Longrightarrow> assign_groups draw sel ! i = set_group (sel ! i) (draw i)"
  by (simp add: assign_groups_def choice_def)

lemma group_set_group [simp]: "group (set_group r g) = g"
  by (simp add: set_group_def)

lemma flag_set_group [simp]: "Churn_flag (set_group r g) = Churn_flag r"
  by (simp add: set_group_def)

lemma occurs_assign_groups:
  "(\<exists>r \<in> set (assign_groups draw sel). group r = g) = (\<exists>i < length sel. draw i = g)"
proof -
  have "(\<exists>r \<in> set (assign_groups draw sel). group r = g)
        = (\<exists>i < length (assign_groups draw sel). group (assign_groups draw sel ! i) = g)"
    by (metis in_set_conv_nth)
  then show ?thesis by (auto simp: nth_assign_groups)
qed

text \<open>
  Claim C1. For every table, every realisation of the draw and every notebook state, the
  two experiment cells run without error, and in the aggregation recomputed after the
  treatment every line of group \<open>B\<close> has \<open>churned = 0\<close> and \<open>rate = 0\<close>. The
  aggregation has a line for group \<open>B\<close> exactly when the draw gave \<open>B\<close> to at least one
  of the month-to-month records.
\<close>

theorem treatment_zeroes_group_B:
  "\<exists>s2 ge. cell_effect (cell_assign draw df s) = Inr s2 \<and> grouped_effect s2 = Some ge
      \<and> (\<forall>a \<in> set ge. agg_group a = B \<longrightarrow> churned a = 0 \<and> rate a = Fin 0)
      \<and> ((\<exists>a \<in> set ge. agg_group a = B) = (\<exists>i < length (month_to_month df). draw i = B))"
proof -
  let ?t = "assign_groups draw (month_to_month df)"
  let ?s1 = "cell_assign draw df s"
  have m: "mtm ?s1 = Some (next_ref s)" and h: "heap ?s1 (next_ref s) = Some ?t"
    by (simp_all add: cell_assign_eq)
  show ?thesis
    unfolding cell_effect_eq [OF m h]
    by (simp add: B_line_after_effect B_line_iff occurs_assign_groups)
qed

lemma length_mtm_clean: "length (month_to_month (set_churn_flag table_clean)) = 3"
  by code_simp

theorem treatment_zeroes_group_B_witness:
  "\<exists>s2 ge. cell_effect (cell_assign alternating (set_churn_flag table_clean) new_notebook)
              = Inr s2
      \<and> grouped_effect s2 = Some ge
      \<and> (\<exists>a \<in> set ge. agg_group a = B \<and> churned a = 0 \<and> rate a = Fin 0)"
proof -
  have "alternating 1 = B" by (simp add: alternating_def)
  then have "\<exists>i < length (month_to_month (set_churn_flag table_clean)). alternating i = B"
    unfolding length_mtm_clean by (intro exI [of _ 1]) simp
  with treatment_zeroes_group_B [of alternating "set_churn_flag table_clean" new_notebook]
  show ?thesis by blast
qed

text \<open>
  Claim C8. The second experiment cell writes into a new table: after it, the variable
  \<open>mtm\<close> refers to the same table as before, that table (its churn flags included) is
  what the first cell stored, every table other than the new one is unchanged, the
  baseline aggregation \<open>grouped\<close> is unchanged, and the lines of group \<open>A\<close> in
  \<open>grouped_effect\<close> are the lines of group \<open>A\<close> in \<open>grouped\<close>.
\<close>

theorem treatment_writes_to_copy:
  "\<exists>s2 p q g ge.
      cell_effect (cell_assign draw df s) = Inr s2
      \<and> mtm (cell_assign draw df s) = Some p \<and> mtm s2 = Some p
      \<and> mtm_effect s2 = Some q \<and> q \<noteq> p
      \<and> heap s2 p = heap (cell_assign draw df s) p
      \<and> heap s2 p = Some (assign_groups draw (month_to_month df))
      \<and> (\<forall>r. r \<noteq> q \<longrightarrow> heap s2 r = heap (cell_assign draw df s) r)
      \<and> grouped (cell_assign draw df s) = Some g \<and> grouped s2 = Some g
      \<and> grouped_effect s2 = Some ge
      \<and> filter (\<lambda>a. agg_group a = A) ge = filter (\<lambda>a. agg_group a = A) g"
proof -
  let ?t = "assign_groups draw (month_to_month df)"
  let ?s1 = "cell_assign draw df s"
  have m: "mtm ?s1 = Some (next_ref s)" and h: "heap ?s1 (next_ref s) = Some ?t"
    and n: "next_ref ?s1 = Suc (next_ref s)" and g: "grouped ?s1 = Some (churn_by_group ?t)"
    by (simp_all add: cell_assign_eq)
  show ?thesis
    unfolding cell_effect_eq [OF m h]
    by (simp add: m h n g A_lines_after_effect)
qed

theorem treatment_writes_to_copy_witness:
  "\<exists>s2. cell_effect (cell_assign alternating (set_churn_flag table_clean) new_notebook)
              = Inr s2
      \<and> mtm s2 = Some 0
      \<and> heap s2 0 = heap (cell_assign alternating (set_churn_flag table_clean) new_notebook) 0
      \<and> grouped s2 = grouped (cell_assign alternating (set_churn_flag table_clean) new_notebook)"
proof -
  have "mtm (cell_assign alternating (set_churn_flag table_clean) new_notebook) = Some 0"
    by (simp add: cell_assign_eq new_notebook_def)
  with treatment_writes_to_copy [of alternating "set_churn_flag table_clean" new_notebook]
  show ?thesis by auto
qed

section \<open>Sizes of the experiment groups\<close>

lemma sum_col_no_cell:
  assumes "count col t = 0"
  shows "sum_col col t = 0"
proof -
  from assms have "\<forall>r \<in> set t. col r = None"
    by (simp add: count_def filter_empty_conv)
  then show ?thesis by (induction t) (simp_all add: sum_col_def)
qed

lemma count_by_group:
  "count col (filter (\<lambda>r. group r = A) t) + count col (filter (\<lambda>r. group r = B) t) = count col t"
proof (induction t)
  case Nil
  show ?case by (simp add: count_def)
next
  case (Cons r t)
  then show ?case by (cases "group r") (auto simp: count_def)
qed

lemma filter_absent_group:
  assumes "\<not> (\<exists>r \<in> set t. group r = g)"
  shows "filter (\<lambda>r. group r = g) t = []"
  using assms by (simp add: filter_empty_conv)

lemma total_agg_row [simp]: "total (agg_row t g) = count Churn_flag (filter (\<lambda>r. group r = g) t)"
  by (simp add: agg_row_def Let_def)

lemma sum_totals: "sum_list (map total (churn_by_group t)) = count Churn_flag t"
proof -
  have absent: "count Churn_flag (filter (\<lambda>r. group r = g) t) = 0"
    if "\<not> (\<exists>r \<in> set t. group r = g)" for g
    using filter_absent_group [OF that] by (simp add: count_def)
  show ?thesis
    using count_by_group [of Churn_flag t] absent [of A] absent [of B]
    by (auto simp: churn_by_group_def)
qed

lemma flags_assign_groups: "map Churn_flag (assign_groups draw sel) = map Churn_flag sel"
  by (rule nth_equalityI) (simp_all add: nth_assign_groups)

lemma count_as_map: "count col t = length (filter (\<lambda>v. v \<noteq> None) (map col t))"
  by (simp add: count_def filter_map comp_def)

lemma count_assign_groups: "count Churn_flag (assign_groups draw sel) = count Churn_flag sel"
  by (simp add: count_as_map flags_assign_groups)

lemma flag_of_present:
  "(flag_of c \<noteq> None) = (c = Some ''Yes'' \<or> c = Some ''No'')"
  by (cases c) (auto simp: flag_of_def churn_dict_def)

lemma flag_add_flag [simp]: "Churn_flag (add_flag c) = flag_of (Churn c)"
  and churn_add_flag [simp]: "Churn (add_flag c) = Churn c"
  by (simp_all add: add_flag_def)

lemma flag_set_churn_flag:
  assumes "r \<in> set (set_churn_flag df)"
  shows "Churn_flag r = flag_of (Churn r)"
  using assms by (auto simp: set_churn_flag_def)

lemma count_flags_month_to_month:
  "count Churn_flag (month_to_month (set_churn_flag df))
     = length (filter (\<lambda>r. Churn r = Some ''Yes'' \<or> Churn r = Some ''No'')
         (month_to_month (set_churn_flag df)))"
proof -
  have "(Churn_flag r \<noteq> None) = (Churn r = Some ''Yes'' \<or> Churn r = Some ''No'')"
    if "r \<in> set (month_to_month (set_churn_flag df))" for r
  proof -
    from that have "r \<in> set (set_churn_flag df)" by (simp add: month_to_month_def)
    then have "Churn_flag r = flag_of (Churn r)" by (rule flag_set_churn_flag)
    then show ?thesis using flag_of_present [of "Churn r"] by (simp only:)
  qed
  then have "filter (\<lambda>r. Churn_flag r \<noteq> None) (month_to_month (set_churn_flag df))
      = filter (\<lambda>r. Churn r = Some ''Yes'' \<or> Churn r = Some ''No'')
          (month_to_month (set_churn_flag df))"
    by (intro filter_cong refl)
  then show ?thesis by (simp only: count_def)
qed

lemma assign_groups_index:
  "assign_groups draw sel = map (\<lambda>i. set_group (sel ! i) (draw i)) [0..<length sel]"
  by (rule nth_equalityI) (simp_all add: nth_assign_groups)

lemma line_total_by_position:
  "count Churn_flag (filter (\<lambda>r. group r = x) (assign_groups draw sel))
     = length (filter (\<lambda>i. draw i = x \<and> Churn_flag (sel ! i) \<noteq> None) [0..<length sel])"
  unfolding assign_groups_index count_def
  by (simp add: filter_map comp_def del: not_None_eq)

lemma groups_of_lines:
  "map agg_group (churn_by_group t) = filter (\<lambda>x. \<exists>r \<in> set t. group r = x) [A, B]"
  by (simp add: churn_by_group_def)

lemma flag_present_month_to_month:
  assumes "i < length (month_to_month (set_churn_flag df))"
  shows "(Churn_flag (month_to_month (set_churn_flag df) ! i) \<noteq> None)
         = (Churn (month_to_month (set_churn_flag df) ! i) = Some ''Yes''
            \<or> Churn (month_to_month (set_churn_flag df) ! i) = Some ''No'')"
proof -
  let ?r = "month_to_month (set_churn_flag df) ! i"
  from assms have "?r \<in> set (month_to_month (set_churn_flag df))" by (rule nth_mem)
  then have "?r \<in> set (set_churn_flag df)" by (simp add: month_to_month_def)
  then have "Churn_flag ?r = flag_of (Churn ?r)" by (rule flag_set_churn_flag)
  then show ?thesis using flag_of_present [of "Churn ?r"] by (simp only:)
qed

text \<open>
  Claim C5, as stated, at three month-to-month customers of whom one has the label
  \<open>Maybe\<close>, all drawn into group \<open>A\<close>: the filtered table has 3 rows, and the only
  line of \<open>grouped\<close> reports \<open>total = 2\<close>.
\<close>

theorem group_sizes_odd_label:
  "length (month_to_month (set_churn_flag table_odd_label)) = 3
   \<and> grouped (cell_assign always_A (set_churn_flag table_odd_label) new_notebook)
       = Some [\<lparr>agg_group = A, total = 2, churned = 1, rate = Fin (1 / 2)\<rparr>]"
  by code_simp

text \<open>
  Claim C5, amended. For every table, every realisation of the draw and every notebook
  state, \<open>grouped\<close> has one line for each group that at least one month-to-month
  record was drawn into, \<open>A\<close> before \<open>B\<close>, and no line for a group that no record
  was drawn into. The \<open>total\<close> of a line is the number of month-to-month records drawn
  into its group whose label is \<open>Yes\<close> or \<open>No\<close> (the records with a non-null churn
  flag), so the \<open>total\<close> values add up to the number of month-to-month records whose
  label is \<open>Yes\<close> or \<open>No\<close>. When every month-to-month record has the label \<open>Yes\<close> or
  \<open>No\<close>, the sum is the size of the filtered table.
\<close>

theorem group_sizes_count_flagged:
  "\<exists>g. grouped (cell_assign draw (set_churn_flag df) s) = Some g
      \<and> map agg_group g
          = filter (\<lambda>x. \<exists>i < length (month_to_month (set_churn_flag df)). draw i = x) [A, B]
      \<and> (\<forall>a \<in> set g.
            total a = length (filter
              (\<lambda>i. draw i = agg_group a
                 \<and> (Churn (month_to_month (set_churn_flag df) ! i) = Some ''Yes''
                    \<or> Churn (month_to_month (set_churn_flag df) ! i) = Some ''No''))
              [0..<length (month_to_month (set_churn_flag df))]))
      \<and> sum_list (map total g)
          = length (filter (\<lambda>r. Churn r = Some ''Yes'' \<or> Churn r = Some ''No'')
                      (month_to_month (set_churn_flag df)))
      \<and> ((\<forall>r \<in> set (month_to_month (set_churn_flag df)).
              Churn r = Some ''Yes'' \<or> Churn r = Some ''No'')
           \<longrightarrow> sum_list (map total g) = length (month_to_month (set_churn_flag df)))"
proof -
  let ?sel = "month_to_month (set_churn_flag df)"
  let ?g = "churn_by_group (assign_groups draw ?sel)"
  have g: "grouped (cell_assign draw (set_churn_flag df) s) = Some ?g"
    by (simp add: cell_assign_eq)
  have k: "map agg_group ?g = filter (\<lambda>x. \<exists>i < length ?sel. draw i = x) [A, B]"
    unfolding groups_of_lines by (simp only: occurs_assign_groups)
  have t: "total a = length (filter
              (\<lambda>i. draw i = agg_group a
                 \<and> (Churn (?sel ! i) = Some ''Yes'' \<or> Churn (?sel ! i) = Some ''No''))
              [0..<length ?sel])"
    if "a \<in> set ?g" for a
  proof -
    from that obtain x where a: "a = agg_row (assign_groups draw ?sel) x"
      by (auto simp: churn_by_group_def)
    have "filter (\<lambda>i. draw i = x \<and> Churn_flag (?sel ! i) \<noteq> None) [0..<length ?sel]
          = filter (\<lambda>i. draw i = x
               \<and> (Churn (?sel ! i) = Some ''Yes'' \<or> Churn (?sel ! i) = Some ''No''))
              [0..<length ?sel]"
    proof (rule filter_cong [OF refl])
      fix i assume "i \<in> set [0..<length ?sel]"
      then have "i < length ?sel" by simp
      then show "(draw i = x \<and> Churn_flag (?sel ! i) \<noteq> None)
          = (draw i = x \<and> (Churn (?sel ! i) = Some ''Yes'' \<or> Churn (?sel ! i) = Some ''No''))"
        by (simp only: flag_present_month_to_month)
    qed
    then show ?thesis
      unfolding a agg_group_agg_row total_agg_row line_total_by_position by (simp only:)
  qed
  have n: "sum_list (map total ?g)
             = length (filter (\<lambda>r. Churn r = Some ''Yes'' \<or> Churn r = Some ''No'') ?sel)"
    by (simp add: sum_totals count_assign_groups count_flags_month_to_month)
  have c: "sum_list (map total ?g) = length ?sel"
    if "\<forall>r \<in> set ?sel. Churn r = Some ''Yes'' \<or> Churn r = Some ''No''"
  proof -
    from that have "filter (\<lambda>r. Churn r = Some ''Yes'' \<or> Churn r = Some ''No'') ?sel = ?sel"
      by (simp only: filter_id_conv)
    with n show ?thesis by (simp only:)
  qed
  from t have t': "\<forall>a \<in> set ?g. total a = length (filter
              (\<lambda>i. draw i = agg_group a
                 \<and> (Churn (?sel ! i) = Some ''Yes'' \<or> Churn (?sel ! i) = Some ''No''))
              [0..<length ?sel])"
    by (rule ballI)
  from c have c': "(\<forall>r \<in> set ?sel. Churn r = Some ''Yes'' \<or> Churn r = Some ''No'')
      \<longrightarrow> sum_list (map total ?g) = length ?sel"
    by (rule impI)
  from g k t' n c' show ?thesis by (intro exI [of _ ?g] conjI)
qed

theorem group_sizes_count_flagged_witness:
  "list_all (\<lambda>r. Churn r = Some ''Yes'' \<or> Churn r = Some ''No'')
      (month_to_month (set_churn_flag table_clean))
   \<and> (\<exists>g. grouped (cell_assign alternating (set_churn_flag table_clean) new_notebook)
             = Some g
          \<and> map agg_group g = [A, B]
          \<and> sum_list (map total g) = 3)"
proof -
  let ?sel = "month_to_month (set_churn_flag table_clean)"
  have l: "list_all (\<lambda>r. Churn r = Some ''Yes'' \<or> Churn r = Some ''No'') ?sel"
    by code_simp
  then have a: "\<forall>r \<in> set ?sel. Churn r = Some ''Yes'' \<or> Churn r = Some ''No''"
    by (simp only: list_all_iff)
  have ea: "\<exists>i < length ?sel. alternating i = A"
    unfolding length_mtm_clean by (rule exI [of _ 0]) (simp add: alternating_def)
  have eb: "\<exists>i < length ?sel. alternating i = B"
    unfolding length_mtm_clean by (rule exI [of _ 1]) (simp add: alternating_def)
  from ea eb have f: "filter (\<lambda>x. \<exists>i < length ?sel. alternating i = x) [A, B] = [A, B]"
    by simp
  from group_sizes_count_flagged [of alternating table_clean new_notebook]
  obtain g where g: "grouped (cell_assign alternating (set_churn_flag table_clean) new_notebook) = Some g"
    and k: "map agg_group g = filter (\<lambda>x. \<exists>i < length ?sel. alternating i = x) [A, B]"
    and c: "(\<forall>r \<in> set ?sel. Churn r = Some ''Yes'' \<or> Churn r = Some ''No'')
              \<longrightarrow> sum_list (map total g) = length ?sel"
    by (elim exE conjE)
  from c a have "sum_list (map total g) = 3" unfolding length_mtm_clean by (rule mp)
  with g k [unfolded f] have "\<exists>g. grouped (cell_assign alternating (set_churn_flag table_clean) new_notebook)
             = Some g \<and> map agg_group g = [A, B] \<and> sum_list (map total g) = 3"
    by (intro exI [of _ g] conjI)
  with l show ?thesis by (rule conjI)
qed

section \<open>The cohort cell raises\<close>

lemma to_timedelta_M: "to_timedelta values ''M'' = Inl ValueError"
  by (simp add: to_timedelta_def unit_nanoseconds_def)

text \<open>
  Claim C2, on the code. For every table the cohort cell raises \<open>ValueError\<close> at the
  conversion of the tenures with \<open>unit='M'\<close>, after it has written \<open>Churn_flag\<close> and
  before it groups by signup month: it produces no cohort line, hence no
  \<open>total_customers\<close>, \<open>retained\<close> or \<open>retention_rate\<close>, for any input.
\<close>

theorem cohort_cell_raises:
  "cohort_cell df = Inl (ValueError, set_churn_flag df)"
  by (simp add: cohort_cell_def to_timedelta_M)

section \<open>Labels other than \<open>Yes\<close> and \<open>No\<close>\<close>

lemma flags_set_churn_flag:
  "map Churn_flag (set_churn_flag df) = map (\<lambda>r. flag_of (Churn r)) df"
  by (simp add: set_churn_flag_def)

lemma flag_of_cases:
  "flag_of (Some ''Yes'') = Some 1" "flag_of (Some ''No'') = Some 0"
  "l \<noteq> ''Yes'' \<Longrightarrow> l \<noteq> ''No'' \<Longrightarrow> flag_of (Some l) = None"
  "flag_of None = None"
  by (simp_all add: flag_of_def churn_dict_def)

text \<open>
  Claim C9, on the code. The churn flag is 1 for the label \<open>Yes\<close>, 0 for the label
  \<open>No\<close> and null for every other string. For every table the cohort cell then raises
  \<open>ValueError\<close>, leaving a table whose \<open>Churn_flag\<close> column holds these flags; the
  cell computes no cohort line in which a record with another label could be counted.
\<close>

theorem flags_then_cohort_cell_raises:
  "flag_of (Some ''Yes'') = Some 1 \<and> flag_of (Some ''No'') = Some 0
   \<and> (\<forall>l. l \<noteq> ''Yes'' \<and> l \<noteq> ''No'' \<longrightarrow> flag_of (Some l) = None)
   \<and> (\<exists>t. cohort_cell df = Inl (ValueError, t)
          \<and> map Churn_flag t = map (\<lambda>r. flag_of (Churn r)) df)"
  by (simp add: flag_of_cases cohort_cell_def to_timedelta_M flags_set_churn_flag)

theorem flags_then_cohort_cell_raises_witness:
  "flag_of (Some ''Maybe'') = None
   \<and> (\<exists>t. cohort_cell table_odd_label = Inl (ValueError, t)
          \<and> map Churn_flag t = [Some 1, None, Some 0])"
proof -
  have e: "map (\<lambda>r. flag_of (Churn r)) table_odd_label = [Some 1, None, Some 0]"
    by code_simp
  have n: "''Maybe'' \<noteq> ''Yes'' \<and> ''Maybe'' \<noteq> ''No''" by simp
  note th = flags_then_cohort_cell_raises [of table_odd_label]
  have 1: "flag_of (Some ''Maybe'') = None"
    by (rule th [THEN conjunct2, THEN conjunct2, THEN conjunct1, THEN spec, THEN mp]) (rule n)
  from th [THEN conjunct2, THEN conjunct2, THEN conjunct2]
  have 2: "\<exists>t. cohort_cell table_odd_label = Inl (ValueError, t)
          \<and> map Churn_flag t = [Some 1, None, Some 0]"
    unfolding e .
  from 1 2 show ?thesis by (rule conjI)
qed

section \<open>Rates with a zero divisor\<close>

lemma churn_counts_entry:
  assumes "e \<in> set (churn_counts df)"
  shows "df \<noteq> []"
  using assms by (auto simp: churn_counts_def)

lemma churn_percentage_finite:
  assumes "e \<in> set (churn_percentage df)"
  shows "\<exists>q. snd e = Fin q"
proof -
  from assms obtain l c where lc: "(l, c) \<in> set (churn_counts df)"
    and e: "e = (l, times100 (truediv (int c) (int (length df))))"
    by (auto simp: churn_percentage_def)
  from lc have "df \<noteq> []" by (rule churn_counts_entry)
  then have "0 < length df" by simp
  then show ?thesis unfolding e by (simp add: truediv_def times100_def)
qed

lemma group_rate_no_cell:
  assumes "a \<in> set (churn_by_group t)" and "total a = 0"
  shows "rate a = NaN"
proof -
  from assms(1) obtain g where a: "a = agg_row t g" by (auto simp: churn_by_group_def)
  from assms(2) have z: "count Churn_flag (filter (\<lambda>r. group r = g) t) = 0"
    unfolding a by simp
  then have "sum_col Churn_flag (filter (\<lambda>r. group r = g) t) = 0"
    by (rule sum_col_no_cell)
  with z show ?thesis unfolding a by (simp add: agg_row_def Let_def truediv_def)
qed

text \<open>
  Claim C6, on the code. Every entry of the churn percentage is finite (an entry exists
  only when the table has a row). On a table without rows every \<open>Conversion\<close> of the
  funnel is \<open>NaN\<close>. The two experiment cells return without error, and every line of
  \<open>grouped\<close> and of \<open>grouped_effect\<close> with \<open>total = 0\<close> has the rate \<open>NaN\<close>. The
  cohort cell raises \<open>ValueError\<close> for every table, so it reports no
  \<open>retention_rate\<close> at all.
\<close>

theorem rates_with_zero_divisor:
  "(\<forall>e \<in> set (churn_percentage df). \<exists>q. snd e = Fin q)
   \<and> (total_signed (set_churn_flag df) = 0 \<longrightarrow>
         (\<forall>s \<in> set (funnel (set_churn_flag df)). Conversion s = NaN))
   \<and> (\<exists>s2 g ge. grouped (cell_assign draw (set_churn_flag df) s) = Some g
         \<and> cell_effect (cell_assign draw (set_churn_flag df) s) = Inr s2
         \<and> grouped_effect s2 = Some ge
         \<and> (\<forall>a \<in> set g \<union> set ge. total a = 0 \<longrightarrow> rate a = NaN))
   \<and> cohort_cell df = Inl (ValueError, set_churn_flag df)"
proof (intro conjI)
  show "\<forall>e \<in> set (churn_percentage df). \<exists>q. snd e = Fin q"
    by (simp add: churn_percentage_finite)
next
  show "total_signed (set_churn_flag df) = 0 \<longrightarrow>
         (\<forall>s \<in> set (funnel (set_churn_flag df)). Conversion s = NaN)"
  proof (intro ballI impI)
    fix s :: funnel_step
    assume z: "total_signed (set_churn_flag df) = 0" and s: "s \<in> set (funnel (set_churn_flag df))"
    from funnel_step_shape [OF s] z show "Conversion s = NaN" by (simp add: truediv_def)
  qed
next
  let ?t = "assign_groups draw (month_to_month (set_churn_flag df))"
  let ?s1 = "cell_assign draw (set_churn_flag df) s"
  have m: "mtm ?s1 = Some (next_ref s)" and h: "heap ?s1 (next_ref s) = Some ?t"
    and g: "grouped ?s1 = Some (churn_by_group ?t)"
    by (simp_all add: cell_assign_eq)
  have "\<forall>a \<in> set (churn_by_group ?t) \<union> set (churn_by_group (zero_churn_in_B ?t)).
          total a = 0 \<longrightarrow> rate a = NaN"
    using group_rate_no_cell by blast
  then show "\<exists>s2 g ge. grouped ?s1 = Some g \<and> cell_effect ?s1 = Inr s2
         \<and> grouped_effect s2 = Some ge
         \<and> (\<forall>a \<in> set g \<union> set ge. total a = 0 \<longrightarrow> rate a = NaN)"
    unfolding cell_effect_eq [OF m h] by (simp add: g)
next
  show "cohort_cell df = Inl (ValueError, set_churn_flag df)"
    by (simp add: cohort_cell_def to_timedelta_M)
qed

theorem rates_with_zero_divisor_witness:
  "total_signed (set_churn_flag []) = 0
   \<and> list_all (\<lambda>s. Conversion s = NaN) (funnel (set_churn_flag []))
   \<and> cohort_cell [] = Inl (ValueError, [])
   \<and> churn_percentage table_one_odd \<noteq> []
   \<and> list_all (\<lambda>e. \<exists>q. snd e = Fin q) (churn_percentage table_one_odd)
   \<and> (\<exists>a. grouped (cell_assign always_A (set_churn_flag table_one_odd) new_notebook) = Some [a]
          \<and> total a = 0 \<and> rate a = NaN)"
proof -
  let ?a = "\<lparr>agg_group = A, total = 0, churned = 0, rate = NaN\<rparr>"
  have e: "total_signed (set_churn_flag []) = 0" by code_simp
  have f: "set_churn_flag [] = []" by code_simp
  have p: "churn_percentage table_one_odd \<noteq> []" by code_simp
  have g: "grouped (cell_assign always_A (set_churn_flag table_one_odd) new_notebook) = Some [?a]"
    by code_simp
  note empty = rates_with_zero_divisor [of "[]" always_A new_notebook]
  note odd = rates_with_zero_divisor [of table_one_odd always_A new_notebook]
  from empty [THEN conjunct2, THEN conjunct1, THEN mp, OF e]
  have 1: "list_all (\<lambda>s. Conversion s = NaN) (funnel (set_churn_flag []))"
    by (simp only: list_all_iff)
  from empty [THEN conjunct2, THEN conjunct2, THEN conjunct2]
  have 2: "cohort_cell [] = Inl (ValueError, [])" unfolding f .
  from odd [THEN conjunct1]
  have 3: "list_all (\<lambda>e. \<exists>q. snd e = Fin q) (churn_percentage table_one_odd)"
    by (simp only: list_all_iff)
  from odd [THEN conjunct2, THEN conjunct2, THEN conjunct1]
  obtain s2 g' ge
    where g': "grouped (cell_assign always_A (set_churn_flag table_one_odd) new_notebook) = Some g'"
      and r: "\<forall>a \<in> set g' \<union> set ge. total a = 0 \<longrightarrow> rate a = NaN"
    by (elim exE conjE)
  from g g' have eq: "g' = [?a]" by simp
  have "?a \<in> set g' \<union> set ge" unfolding eq by simp
  with r have "total ?a = 0 \<longrightarrow> rate ?a = NaN" by (rule bspec)
  then have "rate ?a = NaN" by simp
  with g have 4: "\<exists>a. grouped (cell_assign always_A (set_churn_flag table_one_odd) new_notebook) = Some [a]
          \<and> total a = 0 \<and> rate a = NaN"
    by (intro exI [of _ ?a]) simp
  from e 1 2 p 3 4 show ?thesis by (intro conjI)
qed

end
